theory Spec2Isabelle
  imports Main "HOL-Library.Sublist" "HOL-Library.Multiset"
    "HOL-Library.Char_ord" "HOL-Library.List_Lexorder"
begin

section \<open>Data model of the leasing tracker (src/app/page.tsx)\<close>

text \<open>
  A \<open>LeasingEntry\<close> is one row of the table. Its type declaration lives in
  \<open>@/lib/types\<close>; page.tsx reads the nine fields below: \<open>week\<close> as a number
  (\<open>entry.week.toString()\<close>, numeric \<open><\<close>), every other field as a string
  (\<open>entry.date.includes\<close>, \<open>new Date(entry.date)\<close>, cells of type
  \<open>string | number\<close> in the PDF export). The week is an integer here: every
  week the import stores comes from \<open>parseInt\<close>; a number of JavaScript holds an
  integer exactly up to \<open>2^53\<close> in absolute value, and the model does not round
  beyond. The field \<open>id\<close> is written \<open>id'\<close>, since \<open>id\<close> is HOL's identity
  function.
\<close>

record LeasingEntry =
  id' :: string
  week :: int
  date :: string
  tenantName :: string
  businessName :: string
  businessType :: string
  contact :: string
  "notes" :: string
  status :: string

text \<open>\<open>keyof LeasingEntry\<close>: the column a sort is keyed on.\<close>

datatype entry_key =
  KId | KWeek | KDate | KTenantName | KBusinessName | KBusinessType
  | KContact | KNotes | KStatus

datatype direction = Ascending | Descending

text \<open>\<open>SortConfig\<close> is \<open>{ key, direction } | null\<close>: an optional pair.\<close>

record SortConfig =
  key :: entry_key
  direction :: direction

section \<open>JavaScript strings and numbers used by the pipeline\<close>

text \<open>
  Strings are \<open>char list\<close>s. \<open>s.includes(t)\<close> holds when \<open>t\<close> occurs in \<open>s\<close> as a
  contiguous run, so also for every \<open>s\<close> when \<open>t\<close> is empty.
\<close>

fun includes' :: "string \<Rightarrow> string \<Rightarrow> bool" where
  "includes' [] t = (t = [])"
| "includes' (c # cs) t = (prefix t (c # cs) \<or> includes' cs t)"

text \<open>\<open>toLowerCase\<close>, on the letters \<open>A\<close> to \<open>Z\<close>; every other character is kept.\<close>

definition toLowerChar :: "char \<Rightarrow> char" where
  "toLowerChar c =
     (case map_of (zip ''ABCDEFGHIJKLMNOPQRSTUVWXYZ'' ''abcdefghijklmnopqrstuvwxyz'') c of
        Some l \<Rightarrow> l
      | None \<Rightarrow> c)"

definition toLowerCase :: "string \<Rightarrow> string" where
  "toLowerCase s = map toLowerChar s"

text \<open>
  \<open>Number.prototype.toString()\<close> of an integer: its decimal digits, with a leading
  minus sign below zero.
\<close>

definition digitChar :: "nat \<Rightarrow> char" where
  "digitChar d = ''0123456789'' ! d"

fun digitsOf :: "nat \<Rightarrow> string" where
  "digitsOf n =
     (if n < 10 then [digitChar n]
      else digitsOf (n div 10) @ [digitChar (n mod 10)])"

declare digitsOf.simps [simp del]

definition Number_toString :: "int \<Rightarrow> string" where
  "Number_toString n =
     (if n < 0 then CHR ''-'' # digitsOf (nat (- n)) else digitsOf (nat n))"

section \<open>Time values and the calendar (ECMA-262, Date objects)\<close>

text \<open>
  A time value is a number of milliseconds since 1970-01-01T00:00:00Z, an \<open>int\<close>;
  \<open>NaN\<close>, the time value of an invalid \<open>Date\<close>, is \<open>None\<close>. The functions below
  are the abstract operations of the language specification under their names there;
  page.tsx reaches them through \<open>new Date(s)\<close>, \<open>Date.UTC\<close>, \<open>getFullYear\<close>,
  \<open>getMonth\<close>, \<open>getDate\<close>, \<open>setUTCHours\<close>, \<open>getTime\<close>, \<open>toISOString\<close> and the
  \<open>format\<close> of date-fns.
\<close>

definition msPerDay :: int where "msPerDay = 86400000"

text \<open>
  \<open>DaysInYear(y)\<close> by the leap-year rule, and \<open>DayFromYear(y)\<close>, the day number of
  the first day of year \<open>y\<close>.
\<close>

definition DaysInYear :: "int \<Rightarrow> int" where
  "DaysInYear y =
     (if y mod 4 \<noteq> 0 then 365 else if y mod 100 \<noteq> 0 then 366
      else if y mod 400 \<noteq> 0 then 365 else 366)"

definition DayFromYear :: "int \<Rightarrow> int" where
  "DayFromYear y =
     365 * (y - 1970) + (y - 1969) div 4 - (y - 1901) div 100 + (y - 1601) div 400"

text \<open>
  \<open>DayFromYear\<close> grows by \<open>DaysInYear\<close> from a year to the next; the two searches
  below terminate by it.
\<close>

lemma div_succ:
  fixes a k :: int
  assumes "0 < k"
  shows "(a + 1) div k = a div k + (if (a + 1) mod k = 0 then 1 else 0)"
proof -
  define q r where "q = a div k" and "r = a mod k"
  have a: "a = k * q + r" and r: "0 \<le> r" "r < k"
    using assms by (simp_all add: q_def r_def)
  show ?thesis
  proof (cases "r + 1 = k")
    case True
    then have eq: "a + 1 = k * (q + 1) + 0"
      using a by (simp add: algebra_simps)
    have "(a + 1) div k = q + 1"
      using eq by (rule int_div_pos_eq) (use assms in simp_all)
    moreover have "(a + 1) mod k = 0"
      using eq by (rule int_mod_pos_eq) (use assms in simp_all)
    ultimately show ?thesis by (simp add: q_def)
  next
    case False
    have eq: "a + 1 = k * q + (r + 1)"
      using a by simp
    have "(a + 1) div k = q"
      using eq by (rule int_div_pos_eq) (use r False in simp_all)
    moreover have "(a + 1) mod k = r + 1"
      using eq by (rule int_mod_pos_eq) (use r False in simp_all)
    ultimately show ?thesis using r by (simp add: q_def)
  qed
qed

lemma mod_shift: "(y - k * c) mod k = y mod k" for y k c :: int
  by (metis diff_conv_add_uminus mult_minus_right mod_mult_self2)

lemma DayFromYear_Suc: "DayFromYear (y + 1) = DayFromYear y + DaysInYear y"
proof -
  have s4: "(y + 1 - 1969) div 4 = (y - 1969) div 4 + (if y mod 4 = 0 then 1 else 0)"
    using div_succ [of 4 "y - 1969"] mod_shift [of y 4 492] by (simp add: algebra_simps)
  have s100: "(y + 1 - 1901) div 100 = (y - 1901) div 100 + (if y mod 100 = 0 then 1 else 0)"
    using div_succ [of 100 "y - 1901"] mod_shift [of y 100 19] by (simp add: algebra_simps)
  have s400: "(y + 1 - 1601) div 400 = (y - 1601) div 400 + (if y mod 400 = 0 then 1 else 0)"
    using div_succ [of 400 "y - 1601"] mod_shift [of y 400 4] by (simp add: algebra_simps)
  have m100: "y mod 100 = 0 \<Longrightarrow> y mod 4 = 0" by auto
  have m400: "y mod 400 = 0 \<Longrightarrow> y mod 100 = 0" by auto
  show ?thesis
    unfolding DayFromYear_def DaysInYear_def s4 s100 s400
    using m100 m400 by auto
qed

text \<open>
  \<open>YearFromTime(t)\<close> is the largest year that starts at or before \<open>t\<close>. From an
  estimate, \<open>yearDown\<close> steps back to a year that starts at or before the day and
  \<open>yearUp\<close> then steps forward to the last such year.
\<close>

function yearDown :: "int \<Rightarrow> int \<Rightarrow> int" where
  "yearDown d y = (if d < DayFromYear y then yearDown d (y - 1) else y)"
  by pat_completeness auto
termination
proof (relation "measure (\<lambda>(d, y). nat (DayFromYear y - d))")
  show "wf (measure (\<lambda>(d, y). nat (DayFromYear y - d)))" by simp
next
  fix d y :: int
  assume "d < DayFromYear y"
  moreover have "DayFromYear (y - 1) < DayFromYear y"
    using DayFromYear_Suc [of "y - 1"] by (simp add: DaysInYear_def)
  ultimately show "((d, y - 1), (d, y)) \<in> measure (\<lambda>(d, y). nat (DayFromYear y - d))"
    by simp
qed

function yearUp :: "int \<Rightarrow> int \<Rightarrow> int" where
  "yearUp d y = (if DayFromYear (y + 1) \<le> d then yearUp d (y + 1) else y)"
  by pat_completeness auto
termination
proof (relation "measure (\<lambda>(d, y). nat (d + 1 - DayFromYear (y + 1)))")
  show "wf (measure (\<lambda>(d, y). nat (d + 1 - DayFromYear (y + 1))))" by simp
next
  fix d y :: int
  assume "DayFromYear (y + 1) \<le> d"
  moreover have "DayFromYear (y + 1) < DayFromYear (y + 1 + 1)"
    using DayFromYear_Suc [of "y + 1"] by (simp add: DaysInYear_def)
  ultimately show "((d, y + 1), (d, y)) \<in> measure (\<lambda>(d, y). nat (d + 1 - DayFromYear (y + 1)))"
    by simp
qed

declare yearDown.simps [simp del] yearUp.simps [simp del]

text \<open>\<open>Day(t)\<close> is the day number of \<open>t\<close>, rounded down also before 1970.\<close>

definition Day :: "int \<Rightarrow> int" where
  "Day t = t div msPerDay"


definition YearFromTime :: "int \<Rightarrow> int" where
  "YearFromTime t = yearUp (Day t) (yearDown (Day t) (1970 + Day t div 365))"

definition InLeapYear :: "int \<Rightarrow> int" where
  "InLeapYear t = (if DaysInYear (YearFromTime t) = 366 then 1 else 0)"

definition DayWithinYear :: "int \<Rightarrow> int" where
  "DayWithinYear t = Day t - DayFromYear (YearFromTime t)"

text \<open>
  \<open>MonthFromTime(t)\<close> (0 is January) and \<open>DateFromTime(t)\<close> are the two tables of the
  specification over the day within the year and the leap-year flag.
\<close>

definition monthOfDay :: "int \<Rightarrow> int \<Rightarrow> int" where
  "monthOfDay d l =
     (if d < 31 then 0 else if d < 59 + l then 1 else if d < 90 + l then 2
      else if d < 120 + l then 3 else if d < 151 + l then 4 else if d < 181 + l then 5
      else if d < 212 + l then 6 else if d < 243 + l then 7 else if d < 273 + l then 8
      else if d < 304 + l then 9 else if d < 334 + l then 10 else 11)"

definition MonthFromTime :: "int \<Rightarrow> int" where
  "MonthFromTime t = monthOfDay (DayWithinYear t) (InLeapYear t)"

definition dateOfDay :: "int \<Rightarrow> int \<Rightarrow> int" where
  "dateOfDay d l =
     (let m = monthOfDay d l in
      if m = 0 then d + 1 else if m = 1 then d - 30 else if m = 2 then d - 58 - l
      else if m = 3 then d - 89 - l else if m = 4 then d - 119 - l
      else if m = 5 then d - 150 - l else if m = 6 then d - 180 - l
      else if m = 7 then d - 211 - l else if m = 8 then d - 242 - l
      else if m = 9 then d - 272 - l else if m = 10 then d - 303 - l else d - 333 - l)"

definition DateFromTime :: "int \<Rightarrow> int" where
  "DateFromTime t = dateOfDay (DayWithinYear t) (InLeapYear t)"

text \<open>
  \<open>MakeDay(year, month, date)\<close>: the day number of the first day of the month, which
  \<open>monthStart\<close> counts from the start of the year, plus \<open>date - 1\<close>. \<open>MakeTime\<close>
  and \<open>MakeDate\<close> put a time of day and a time value together; \<open>TimeClip\<close> gives
  \<open>NaN\<close> beyond 100 000 000 days on either side of 1970.
\<close>

definition monthStart :: "int \<Rightarrow> int \<Rightarrow> int" where
  "monthStart mn leap =
     (if mn = 0 then 0 else if mn = 1 then 31 else if mn = 2 then 59 + leap
      else if mn = 3 then 90 + leap else if mn = 4 then 120 + leap
      else if mn = 5 then 151 + leap else if mn = 6 then 181 + leap
      else if mn = 7 then 212 + leap else if mn = 8 then 243 + leap
      else if mn = 9 then 273 + leap else if mn = 10 then 304 + leap else 334 + leap)"

definition MakeDay :: "int \<Rightarrow> int \<Rightarrow> int \<Rightarrow> int" where
  "MakeDay year month dt =
     (let ym = year + month div 12; mn = month mod 12
      in DayFromYear ym + monthStart mn (if DaysInYear ym = 366 then 1 else 0) + dt - 1)"

definition MakeTime :: "int \<Rightarrow> int \<Rightarrow> int \<Rightarrow> int \<Rightarrow> int" where
  "MakeTime hour minute sec ms = hour * 3600000 + minute * 60000 + sec * 1000 + ms"

definition MakeDate :: "int \<Rightarrow> int \<Rightarrow> int" where
  "MakeDate day time = day * msPerDay + time"

definition TimeClip :: "int \<Rightarrow> int option" where
  "TimeClip t = (if \<bar>t\<bar> > 8640000000000000 then None else Some t)"

text \<open>
  \<open>Date.UTC(year, month, date)\<close>; it reads a year from 0 to 99 as 1900 plus that
  year.
\<close>

definition MakeFullYear :: "int \<Rightarrow> int" where
  "MakeFullYear y = (if 0 \<le> y \<and> y \<le> 99 then 1900 + y else y)"

definition Date_UTC :: "int \<Rightarrow> int \<Rightarrow> int \<Rightarrow> int option" where
  "Date_UTC year month dt =
     TimeClip (MakeDate (MakeDay (MakeFullYear year) month dt) (MakeTime 0 0 0 0))"

text \<open>
  What the language leaves to the engine and the machine: the offset of local time from
  UTC at a given instant, in milliseconds, and what \<open>Date.parse\<close> makes of a string
  that is not in the date-time format of the specification.
\<close>

record JsHost =
  dateParseFallback :: "string \<Rightarrow> int option"
  localTZA :: "int \<Rightarrow> int"

text \<open>\<open>getFullYear\<close>, \<open>getMonth\<close> and \<open>getDate\<close> read the calendar in local time.\<close>

definition LocalTime :: "JsHost \<Rightarrow> int \<Rightarrow> int" where
  "LocalTime h t = t + localTZA h t"

definition getFullYear :: "JsHost \<Rightarrow> int \<Rightarrow> int" where
  "getFullYear h t = YearFromTime (LocalTime h t)"

definition getMonth :: "JsHost \<Rightarrow> int \<Rightarrow> int" where
  "getMonth h t = MonthFromTime (LocalTime h t)"

definition getDate :: "JsHost \<Rightarrow> int \<Rightarrow> int" where
  "getDate h t = DateFromTime (LocalTime h t)"

text \<open>
  \<open>Date.parse\<close>. The value of a string is fixed by the specification when it is in
  the date-time format with legal field values. Two forms of it are read here: the date
  alone, \<open>YYYY-MM-DD\<close>, which is midnight UTC of that day, and the form that
  \<open>toISOString\<close> writes, \<open>YYYY-MM-DDTHH:mm:ss.sssZ\<close>. Every other string goes to
  \<open>dateParseFallback\<close>.
\<close>

definition digitValue :: "char \<Rightarrow> nat option" where
  "digitValue c = map_of (zip ''0123456789'' [0, 1, 2, 3, 4, 5, 6, 7, 8, 9]) c"

fun digitsValue :: "nat \<Rightarrow> string \<Rightarrow> nat option" where
  "digitsValue acc [] = Some acc"
| "digitsValue acc (c # cs) =
     (case digitValue c of None \<Rightarrow> None | Some v \<Rightarrow> digitsValue (10 * acc + v) cs)"

definition isoField :: "string \<Rightarrow> nat \<Rightarrow> nat \<Rightarrow> int option" where
  "isoField s i n = map_option int (digitsValue 0 (take n (drop i s)))"

definition DaysInMonth :: "int \<Rightarrow> int \<Rightarrow> int" where
  "DaysInMonth mn leap =
     (if mn = 1 then 28 + leap
      else if mn = 3 \<or> mn = 5 \<or> mn = 8 \<or> mn = 10 then 30 else 31)"

definition parseIsoDay :: "string \<Rightarrow> int option" where
  "parseIsoDay s =
     (if length s = 10 \<and> s ! 4 = CHR ''-'' \<and> s ! 7 = CHR ''-'' then
        (case (isoField s 0 4, isoField s 5 2, isoField s 8 2) of
           (Some y, Some m, Some d) \<Rightarrow>
             if 1 \<le> m \<and> m \<le> 12 \<and> 1 \<le> d
                \<and> d \<le> DaysInMonth (m - 1) (if DaysInYear y = 366 then 1 else 0)
             then Some (MakeDay y (m - 1) d) else None
         | _ \<Rightarrow> None)
      else None)"

definition parseIsoTime :: "string \<Rightarrow> int option" where
  "parseIsoTime s =
     (if length s = 14 \<and> s ! 0 = CHR ''T'' \<and> s ! 3 = CHR '':'' \<and> s ! 6 = CHR '':''
         \<and> s ! 9 = CHR ''.'' \<and> s ! 13 = CHR ''Z'' then
        (case (isoField s 1 2, isoField s 4 2, isoField s 7 2, isoField s 10 3) of
           (Some hh, Some mm, Some ss, Some ms) \<Rightarrow>
             if hh \<le> 23 \<and> mm \<le> 59 \<and> ss \<le> 59 then Some (MakeTime hh mm ss ms) else None
         | _ \<Rightarrow> None)
      else None)"

definition parseIso :: "string \<Rightarrow> int option" where
  "parseIso s =
     (if length s = 10 then map_option (\<lambda>d. MakeDate d 0) (parseIsoDay s)
      else (case (parseIsoDay (take 10 s), parseIsoTime (drop 10 s)) of
              (Some d, Some t) \<Rightarrow> Some (MakeDate d t)
            | _ \<Rightarrow> None))"

definition Date_parse :: "JsHost \<Rightarrow> string \<Rightarrow> int option" where
  "Date_parse h s =
     (case parseIso s of
        Some t \<Rightarrow> TimeClip t
      | None \<Rightarrow> (case dateParseFallback h s of None \<Rightarrow> None | Some t \<Rightarrow> TimeClip t))"

text \<open>
  \<open>toISOString\<close> of a valid date: four digits for the years 0 to 9999, a sign and six
  digits for the others. \<open>padStart n s\<close> is \<open>s.padStart(n, '0')\<close>.
\<close>

definition padStart :: "nat \<Rightarrow> string \<Rightarrow> string" where
  "padStart n s = replicate (n - length s) CHR ''0'' @ s"


text \<open>
  \<open>format(d, 'yyyy-MM-dd')\<close> of date-fns on a valid date, in local time: the token
  \<open>yyyy\<close> prints the year of the era (\<open>1 - year\<close> for the years up to 0) with
  \<open>addLeadingZeros\<close>, \<open>MM\<close> the month from 01 and \<open>dd\<close> the day of the month.
\<close>

definition addLeadingZeros :: "int \<Rightarrow> nat \<Rightarrow> string" where
  "addLeadingZeros number targetLength =
     (if number < 0 then ''-'' else '''') @ padStart targetLength (digitsOf (nat \<bar>number\<bar>))"

definition format_yyyy_MM_dd :: "JsHost \<Rightarrow> int \<Rightarrow> string" where
  "format_yyyy_MM_dd h t =
     (let signedYear = getFullYear h t;
          year = (if signedYear > 0 then signedYear else 1 - signedYear)
      in addLeadingZeros year 4 @ ''-'' @ addLeadingZeros (getMonth h t + 1) 2
         @ ''-'' @ addLeadingZeros (getDate h t) 2)"

section \<open>Date-range filter (the first \<open>filter\<close> of the \<open>useEffect\<close>)\<close>

text \<open>
  The state \<open>date\<close> is a \<open>DateRange | undefined\<close> of react-day-picker: \<open>from\<close> and
  \<open>to\<close> are \<open>Date\<close> objects or \<open>undefined\<close>. The picker hands out valid dates, so a
  picker date is its time value.
\<close>

record DateRange =
  "from" :: "int option"
  to :: "int option"

text \<open>\<open>new Date(s)\<close> for a string \<open>s\<close>: the time value of the new object.\<close>

definition newDate :: "JsHost \<Rightarrow> string \<Rightarrow> int option" where
  "newDate h s = Date_parse h s"

text \<open>
  \<open>d.setUTCHours(0, 0, 0, 0)\<close> returns the new time value of \<open>d\<close>, which
  \<open>new Date(...)\<close> wraps again; on an invalid date it is \<open>NaN\<close>.
\<close>

definition setUTCHours0 :: "int option \<Rightarrow> int option" where
  "setUTCHours0 tv =
     (case tv of None \<Rightarrow> None | Some t \<Rightarrow> TimeClip (MakeDate (Day t) (MakeTime 0 0 0 0)))"

text \<open>
  \<open>a <= b\<close> and \<open>a < b\<close> on two \<open>Date\<close>s or numbers compare the time values, and are
  false when either is \<open>NaN\<close>. (\<open>x >= y\<close> is \<open>num_le y x\<close>.)
\<close>

definition num_le :: "int option \<Rightarrow> int option \<Rightarrow> bool" where
  "num_le a b = (case (a, b) of (Some x, Some y) \<Rightarrow> x \<le> y | _ \<Rightarrow> False)"

definition num_lt :: "int option \<Rightarrow> int option \<Rightarrow> bool" where
  "num_lt a b = (case (a, b) of (Some x, Some y) \<Rightarrow> x < y | _ \<Rightarrow> False)"

text \<open>
  \<open>new Date(Date.UTC(d.getFullYear(), d.getMonth(), d.getDate()))\<close>: the local
  calendar date of the picker date, read as a UTC date.
\<close>

definition pickerInUTC :: "JsHost \<Rightarrow> int \<Rightarrow> int option" where
  "pickerInUTC h d = Date_UTC (getFullYear h d) (getMonth h d) (getDate h d)"

text \<open>
  \<^verbatim>\<open>
  if (!date?.from) return true;
  const entryDate = new Date(entry.date);
  const from = date.from;
  const fromInUTC = new Date(Date.UTC(from.getFullYear(), from.getMonth(), from.getDate()));
  const to = date.to || date.from;
  const toInUTC = new Date(Date.UTC(to.getFullYear(), to.getMonth(), to.getDate()));
  const entryDateAtMidnight = new Date(entryDate.setUTCHours(0, 0, 0, 0));
  return entryDateAtMidnight >= fromInUTC && entryDateAtMidnight <= toInUTC;
  \<close>
\<close>

definition passesDateRange :: "JsHost \<Rightarrow> DateRange option \<Rightarrow> LeasingEntry \<Rightarrow> bool" where
  "passesDateRange h dateRange entry =
     (case dateRange of
        None \<Rightarrow> True
      | Some r \<Rightarrow>
         (case from r of
            None \<Rightarrow> True
          | Some frm \<Rightarrow>
              let entryDate = newDate h (date entry);
                  fromInUTC = pickerInUTC h frm;
                  toDate = (case to r of Some t \<Rightarrow> t | None \<Rightarrow> frm);
                  toInUTC = pickerInUTC h toDate;
                  entryDateAtMidnight = setUTCHours0 entryDate
              in num_le fromInUTC entryDateAtMidnight \<and> num_le entryDateAtMidnight toInUTC))"

definition filteredByDate :: "JsHost \<Rightarrow> DateRange option \<Rightarrow> LeasingEntry list \<Rightarrow> LeasingEntry list" where
  "filteredByDate h dateRange entries = filter (passesDateRange h dateRange) entries"

section \<open>Field filter (the second \<open>filter\<close> of the \<open>useEffect\<close>)\<close>

text \<open>
  \<open>LeasingFilter\<close> is \<open>Partial<{week, date, tenantName, ...}>\<close> with string values:
  a map from the eight filterable keys to strings. A key that is absent, or present
  with value \<open>undefined\<close>, is \<open>None\<close>; both pass \<open>if (!filterValue) return true\<close>.
\<close>

datatype filter_key =
  FWeek | FDate | FTenantName | FBusinessName | FBusinessType | FContact | FNotes | FStatus

type_synonym LeasingFilter = "filter_key \<rightharpoonup> string"

definition allFilterKeys :: "filter_key list" where
  "allFilterKeys =
     [FWeek, FDate, FTenantName, FBusinessName, FBusinessType, FContact, FNotes, FStatus]"

text \<open>
  \<open>Object.keys(filters)\<close>: the keys that are present. \<open>every\<close> is a conjunction, so
  the order in which the keys come does not matter.
\<close>

definition Object_keys :: "LeasingFilter \<Rightarrow> filter_key list" where
  "Object_keys filters = filter (\<lambda>k. filters k \<noteq> None) allFilterKeys"

text \<open>\<open>entry[key]\<close> for the keys whose value is a string.\<close>

fun entryValue :: "LeasingEntry \<Rightarrow> filter_key \<Rightarrow> string" where
  "entryValue e FWeek = Number_toString (week e)"
| "entryValue e FDate = date e"
| "entryValue e FTenantName = tenantName e"
| "entryValue e FBusinessName = businessName e"
| "entryValue e FBusinessType = businessType e"
| "entryValue e FContact = contact e"
| "entryValue e FNotes = notes e"
| "entryValue e FStatus = status e"

text \<open>
  The callback of \<open>every\<close>:
  \<^verbatim>\<open>
  const filterValue = filters[key];
  if (!filterValue) return true;
  if (key === 'week') return entry.week.toString().includes(filterValue);
  if (key === 'date') return entry.date.includes(filterValue);
  const entryValue = entry[key];
  if (typeof entryValue === 'string')
    return entryValue.toLowerCase().includes(filterValue.toLowerCase());
  return true;
  \<close>
  Past the first two tests the key is one of the six text fields, whose values are
  strings, so the last \<open>return true\<close> is not reached.
\<close>

definition keyPasses :: "LeasingFilter \<Rightarrow> LeasingEntry \<Rightarrow> filter_key \<Rightarrow> bool" where
  "keyPasses filters entry k =
     (case filters k of
        None \<Rightarrow> True
      | Some filterValue \<Rightarrow>
          if filterValue = [] then True
          else if k = FWeek then includes' (Number_toString (week entry)) filterValue
          else if k = FDate then includes' (date entry) filterValue
          else includes' (toLowerCase (entryValue entry k)) (toLowerCase filterValue))"

definition entryPassesFilters :: "LeasingFilter \<Rightarrow> LeasingEntry \<Rightarrow> bool" where
  "entryPassesFilters filters entry = list_all (keyPasses filters entry) (Object_keys filters)"

definition finalFiltered :: "LeasingFilter \<Rightarrow> LeasingEntry list \<Rightarrow> LeasingEntry list" where
  "finalFiltered filters entries = filter (entryPassesFilters filters) entries"

text \<open>
  The effect ends with \<open>setFilteredData(finalFiltered)\<close>: the table shows the store
  after both filters.
\<close>

definition filteredData ::
  "JsHost \<Rightarrow> DateRange option \<Rightarrow> LeasingFilter \<Rightarrow> LeasingEntry list \<Rightarrow> LeasingEntry list" where
  "filteredData h dateRange filters entries =
     finalFiltered filters (filteredByDate h dateRange entries)"




section \<open>Sort engine (\<open>sortedData\<close>)\<close>

text \<open>
  \<open>Array.prototype.sort(compareFn)\<close> is a stable sort: elements that compare equal
  keep their order. When \<open>compareFn\<close> is a consistent comparator the result is fixed by
  that, and insertion from the right computes it: every element is put before the first
  element of the sorted rest that it does not come after. When \<open>compareFn\<close> is not
  consistent the language leaves the order to the engine; the statements about the
  order below are made where it is consistent.
\<close>

fun insertSorted :: "('a \<Rightarrow> 'a \<Rightarrow> int) \<Rightarrow> 'a \<Rightarrow> 'a list \<Rightarrow> 'a list" where
  "insertSorted compareFn x [] = [x]"
| "insertSorted compareFn x (y # ys) =
     (if compareFn x y \<le> 0 then x # y # ys else y # insertSorted compareFn x ys)"

definition Array_sort :: "('a \<Rightarrow> 'a \<Rightarrow> int) \<Rightarrow> 'a list \<Rightarrow> 'a list" where
  "Array_sort compareFn xs = foldr (insertSorted compareFn) xs []"

text \<open>\<open>String(a[key])\<close>: the text of a field.\<close>

fun keyString :: "entry_key \<Rightarrow> LeasingEntry \<Rightarrow> string" where
  "keyString KId e = id' e"
| "keyString KWeek e = Number_toString (week e)"
| "keyString KDate e = date e"
| "keyString KTenantName e = tenantName e"
| "keyString KBusinessName e = businessName e"
| "keyString KBusinessType e = businessType e"
| "keyString KContact e = contact e"
| "keyString KNotes e = notes e"
| "keyString KStatus e = status e"

text \<open>
  The comparator handed to \<open>sort\<close>:
  \<^verbatim>\<open>
  const aValue = a[sortConfig.key];  const bValue = b[sortConfig.key];
  if (sortConfig.key === 'week') {
    if (aValue < bValue) return sortConfig.direction === 'ascending' ? -1 : 1;
    if (aValue > bValue) return sortConfig.direction === 'ascending' ? 1 : -1;
    return 0;
  }
  if (sortConfig.key === 'date') {
    const dateA = new Date(aValue).getTime();  const dateB = new Date(bValue).getTime();
    if (dateA < dateB) return sortConfig.direction === 'ascending' ? -1 : 1;
    if (dateA > dateB) return sortConfig.direction === 'ascending' ? 1 : -1;
    return 0;
  }
  if (String(aValue).toLowerCase() < String(bValue).toLowerCase())
    return sortConfig.direction === 'ascending' ? -1 : 1;
  if (String(aValue).toLowerCase() > String(bValue).toLowerCase())
    return sortConfig.direction === 'ascending' ? 1 : -1;
  return 0;
  \<close>
  \<open><\<close> on strings is the lexicographic order of their characters' codes.
\<close>

definition compareEntries :: "JsHost \<Rightarrow> SortConfig \<Rightarrow> LeasingEntry \<Rightarrow> LeasingEntry \<Rightarrow> int" where
  "compareEntries h cfg a b =
     (if key cfg = KWeek then
        (if week a < week b then (if direction cfg = Ascending then - 1 else 1)
         else if week a > week b then (if direction cfg = Ascending then 1 else - 1)
         else 0)
      else if key cfg = KDate then
        (let dateA = newDate h (date a); dateB = newDate h (date b) in
         if num_lt dateA dateB then (if direction cfg = Ascending then - 1 else 1)
         else if num_lt dateB dateA then (if direction cfg = Ascending then 1 else - 1)
         else 0)
      else
        (if toLowerCase (keyString (key cfg) a) < toLowerCase (keyString (key cfg) b)
         then (if direction cfg = Ascending then - 1 else 1)
         else if toLowerCase (keyString (key cfg) a) > toLowerCase (keyString (key cfg) b)
         then (if direction cfg = Ascending then 1 else - 1)
         else 0))"

text \<open>
  \<^verbatim>\<open>
  let sortableItems = [...filteredData];
  if (sortConfig !== null) sortableItems.sort(...);
  return sortableItems;
  \<close>
\<close>

definition sortedData :: "JsHost \<Rightarrow> SortConfig option \<Rightarrow> LeasingEntry list \<Rightarrow> LeasingEntry list" where
  "sortedData h config items =
     (case config of
        None \<Rightarrow> items
      | Some cfg \<Rightarrow> Array_sort (compareEntries h cfg) items)"

text \<open>
  The same computation with the arrays in a store, to tell a copy from the array it was
  copied from: an array is an address, \<open>[...a]\<close> allocates a new array with the elements
  of \<open>a\<close>, and \<open>sort\<close> overwrites the array it is called on.
\<close>

type_synonym address = nat
type_synonym heap = "LeasingEntry list list"

definition spread :: "heap \<Rightarrow> address \<Rightarrow> address \<times> heap" where
  "spread hp a = (length hp, hp @ [hp ! a])"

definition sortInPlace ::
  "(LeasingEntry \<Rightarrow> LeasingEntry \<Rightarrow> int) \<Rightarrow> address \<Rightarrow> heap \<Rightarrow> heap" where
  "sortInPlace compareFn a hp = hp[a := Array_sort compareFn (hp ! a)]"

definition sortedDataMemo ::
  "JsHost \<Rightarrow> SortConfig option \<Rightarrow> address \<Rightarrow> heap \<Rightarrow> address \<times> heap" where
  "sortedDataMemo h config filteredDataRef hp =
     (let (sortableItems, hp1) = spread hp filteredDataRef;
          hp2 = (case config of
                   None \<Rightarrow> hp1
                 | Some cfg \<Rightarrow> sortInPlace (compareEntries h cfg) sortableItems hp1)
      in (sortableItems, hp2))"




section \<open>The component state touched by the handlers\<close>

text \<open>
  The \<open>useState\<close> cells that \<open>handleSort\<close>, \<open>handleSave\<close> and the upload
  read or write. A handler is a function from the state to the next state.
\<close>

record AppState =
  data :: "LeasingEntry list"
  entryToEdit :: "LeasingEntry option"
  isAddEditDialogOpen :: bool
  sortConfig :: "SortConfig option"

subsection \<open>handleSort\<close>

text \<open>
  \<^verbatim>\<open>
  let direction = 'ascending';
  if (sortConfig && sortConfig.key === key && sortConfig.direction === 'ascending')
    direction = 'descending';
  setSortConfig({ key, direction });
  \<close>
\<close>

definition nextDirection :: "SortConfig option \<Rightarrow> entry_key \<Rightarrow> direction" where
  "nextDirection sc k =
     (case sc of
        None \<Rightarrow> Ascending
      | Some c \<Rightarrow> if key c = k \<and> direction c = Ascending then Descending else Ascending)"

definition handleSort :: "entry_key \<Rightarrow> AppState \<Rightarrow> AppState" where
  "handleSort k s = s\<lparr>sortConfig := Some \<lparr>key = k, direction = nextDirection (sortConfig s) k\<rparr>\<rparr>"

subsection \<open>handleSave\<close>

text \<open>
  \<^verbatim>\<open>
  if (entryToEdit) setData(data.map((item) => (item.id === entry.id ? entry : item)));
  else             setData([entry, ...data]);
  setIsAddEditDialogOpen(false);
  setEntryToEdit(null);
  \<close>
\<close>

definition handleSave :: "LeasingEntry \<Rightarrow> AppState \<Rightarrow> AppState" where
  "handleSave entry s =
     s\<lparr>data := (case entryToEdit s of
                  Some _ \<Rightarrow> map (\<lambda>item. if id' item = id' entry then entry else item) (data s)
                | None \<Rightarrow> entry # data s),
       isAddEditDialogOpen := False,
       entryToEdit := None\<rparr>"


section \<open>Import parser (\<open>handleFileUpload\<close>)\<close>

text \<open>
  \<open>Papa.parse(file, { header: true, skipEmptyLines: true, ... })\<close> hands
  \<open>complete\<close> one object per data row in \<open>results.data\<close>, keyed by the names of the
  header row, with strings as values. A row is the list of its (name, value) pairs;
  \<open>row.date\<close> is \<open>undefined\<close> (\<open>None\<close>) when the file has no such column.
\<close>

type_synonym row = "(string \<times> string) list"

definition rowProp :: "row \<Rightarrow> string \<Rightarrow> string option" where
  "rowProp row k = map_of row k"
















section \<open>CSV export (\<open>handleDownload\<close>)\<close>

definition headers :: "string list" where
  "headers = [''id'', ''week'', ''date'', ''tenantName'', ''businessName'',
     ''businessType'', ''contact'', ''notes'', ''status'']"

text \<open>
  \<open>format(d, 'yyyy-MM-dd')\<close> of date-fns throws a \<open>RangeError\<close> on an invalid date.
\<close>

datatype download_error = RangeError

definition format :: "JsHost \<Rightarrow> int option \<Rightarrow> download_error + string" where
  "format h d = (case d of None \<Rightarrow> Inl RangeError | Some t \<Rightarrow> Inr (format_yyyy_MM_dd h t))"

text \<open>
  \<open>{ ...entry, date: format(new Date(entry.date), 'yyyy-MM-dd') }\<close>, with the values as
  the serializer prints them (the week by its \<open>toString()\<close>).
\<close>

definition exportObject :: "JsHost \<Rightarrow> LeasingEntry \<Rightarrow> download_error + row" where
  "exportObject h entry =
     (case format h (newDate h (date entry)) of
        Inl e \<Rightarrow> Inl e
      | Inr d \<Rightarrow>
          Inr [(''id'', id' entry), (''week'', Number_toString (week entry)), (''date'', d),
               (''tenantName'', tenantName entry), (''businessName'', businessName entry),
               (''businessType'', businessType entry), (''contact'', contact entry),
               (''notes'', notes entry), (''status'', status entry)])"

fun dataToExport :: "JsHost \<Rightarrow> LeasingEntry list \<Rightarrow> download_error + row list" where
  "dataToExport h [] = Inr []"
| "dataToExport h (entry # entries) =
     (case exportObject h entry of
        Inl e \<Rightarrow> Inl e
      | Inr obj \<Rightarrow>
          (case dataToExport h entries of
             Inl e \<Rightarrow> Inl e
           | Inr objs \<Rightarrow> Inr (obj # objs)))"

text \<open>
  \<open>Papa.unparse({ fields: headers, data: dataToExport })\<close> writes the header row and,
  for every object, the values of the fields in the order of the header.
  \<open>Papa.parse\<close> with \<open>header: true\<close> reads such a file back as one object per data
  row, keyed by the header. A CSV file is kept as its table of cells; the quoting of
  cells in the text and its undoing are the library's.
\<close>

record CsvTable =
  header :: "string list"
  records :: "string list list"

definition Papa_unparse :: "string list \<Rightarrow> row list \<Rightarrow> CsvTable" where
  "Papa_unparse fs objs =
     \<lparr>header = fs,
      records = map (\<lambda>obj. map (\<lambda>f. case rowProp obj f of None \<Rightarrow> [] | Some v \<Rightarrow> v) fs) objs\<rparr>"


text \<open>
  \<^verbatim>\<open>
  const blob = new Blob([csv], { type: 'text/csv;charset=utf-t8;' });
  const link = document.createElement('a');
  if (link.download !== undefined) {
    ...
    link.setAttribute('download', `leasing_report_${format(new Date(), 'yyyy-MM-dd')}.csv`);
    ...  link.click(); ...
  }
  \<close>
  \<open>now\<close> is the time value of \<open>new Date()\<close>; \<open>downloadSupported\<close> says whether the
  browser knows the \<open>download\<close> attribute. An exception of \<open>format\<close> leaves the handler.
\<close>

record Download =
  blobType :: string
  download :: string
  csv :: CsvTable

definition handleDownload ::
  "JsHost \<Rightarrow> bool \<Rightarrow> int \<Rightarrow> LeasingEntry list \<Rightarrow> download_error + Download option" where
  "handleDownload h downloadSupported now items =
     (case dataToExport h items of
        Inl e \<Rightarrow> Inl e
      | Inr objs \<Rightarrow>
          if downloadSupported
          then Inr (Some \<lparr>blobType = ''text/csv;charset=utf-t8;'',
                           download = ''leasing_report_'' @ format_yyyy_MM_dd h now @ ''.csv'',
                           csv = Papa_unparse headers objs\<rparr>)
          else Inr None)"

text \<open>\<open>exportCells h e cells\<close>: \<open>cells\<close> is the CSV row of entry \<open>e\<close>.\<close>

definition exportCells :: "JsHost \<Rightarrow> LeasingEntry \<Rightarrow> string list \<Rightarrow> bool" where
  "exportCells h e cells \<longleftrightarrow>
     (\<exists>t. newDate h (date e) = Some t
        \<and> cells = [id' e, Number_toString (week e), format_yyyy_MM_dd h t, tenantName e,
             businessName e, businessType e, contact e, notes e, status e])"

section \<open>Export followed by import\<close>



section \<open>Sample entries for concrete evaluations\<close>

definition entryAni :: LeasingEntry where
  "entryAni = \<lparr>id' = ''a'', week = 1, date = ''2025-06-01T00:00:00.000Z'',
     tenantName = ''Ani'', businessName = ''Toko Ani'', businessType = ''Retail'',
     contact = ''0811'', notes = [], status = []\<rparr>"

definition entryBudi :: LeasingEntry where
  "entryBudi = \<lparr>id' = ''b'', week = 13, date = ''2025-06-30T09:30:00.000Z'',
     tenantName = ''budi'', businessName = ''Kopi Budi'', businessType = ''F&B'',
     contact = ''0812'', notes = ''Follow up'', status = ''Deal''\<rparr>"


definition entryCitra :: LeasingEntry where
  "entryCitra = \<lparr>id' = ''c'', week = 30, date = ''2025-05-31T00:00:00.000Z'',
     tenantName = ''Citra'', businessName = ''Salon'', businessType = ''Service'',
     contact = ''0813'', notes = [], status = ''Lost''\<rparr>"

text \<open>
  A host in the time zone UTC+7 whose \<open>Date.parse\<close> rejects every string outside
  the two forms read by \<open>parseIso\<close>.
\<close>

definition jakarta :: JsHost where
  "jakarta = \<lparr>dateParseFallback = (\<lambda>_. None), localTZA = (\<lambda>_. 25200000)\<rparr>"






section \<open>The calendar functions invert each other\<close>






lemma monthOfDay_range: "0 \<le> monthOfDay d l \<and> monthOfDay d l \<le> 11"
  by (simp add: monthOfDay_def)

lemma dateOfDay_monthStart:
  "dateOfDay d l = d - monthStart (monthOfDay d l) l + 1"
  by (simp add: dateOfDay_def monthStart_def Let_def)


lemma MakeDay_inverse:
  "MakeDay (YearFromTime t) (MonthFromTime t) (DateFromTime t) = Day t"
proof -
  have m: "0 \<le> MonthFromTime t" "MonthFromTime t \<le> 11"
    using monthOfDay_range by (simp_all add: MonthFromTime_def)
  then have "MonthFromTime t div 12 = 0" "MonthFromTime t mod 12 = MonthFromTime t"
    by simp_all
  then show ?thesis
    by (simp add: MakeDay_def DateFromTime_def MonthFromTime_def dateOfDay_monthStart
        InLeapYear_def DayWithinYear_def)
qed


section \<open>Sort-state transitions\<close>

text \<open>
  Claim C8. Selecting the field that is currently sorted ascending gives that field
  descending; selecting it once more gives it ascending again; selecting a field other
  than the current one, or selecting while no sort is active, gives that field ascending.
  Nothing but the sort state changes.
\<close>

theorem handleSort_transitions:
  "sortConfig (handleSort k (s\<lparr>sortConfig := Some \<lparr>key = k, direction = Ascending\<rparr>\<rparr>))
     = Some \<lparr>key = k, direction = Descending\<rparr>
   \<and> sortConfig (handleSort k (handleSort k (s\<lparr>sortConfig := Some \<lparr>key = k, direction = Ascending\<rparr>\<rparr>)))
     = Some \<lparr>key = k, direction = Ascending\<rparr>
   \<and> sortConfig (handleSort k (s\<lparr>sortConfig := Some \<lparr>key = k, direction = Descending\<rparr>\<rparr>))
     = Some \<lparr>key = k, direction = Ascending\<rparr>
   \<and> (k' \<noteq> k \<longrightarrow>
        sortConfig (handleSort k (s\<lparr>sortConfig := Some \<lparr>key = k', direction = d\<rparr>\<rparr>))
          = Some \<lparr>key = k, direction = Ascending\<rparr>)
   \<and> sortConfig (handleSort k (s\<lparr>sortConfig := None\<rparr>))
     = Some \<lparr>key = k, direction = Ascending\<rparr>
   \<and> data (handleSort k s) = data s
   \<and> entryToEdit (handleSort k s) = entryToEdit s
   \<and> isAddEditDialogOpen (handleSort k s) = isAddEditDialogOpen s"
  by (simp add: handleSort_def nextDirection_def)

theorem handleSort_transitions_witness:
  "KDate \<noteq> KWeek \<and>
   sortConfig (handleSort KWeek
     \<lparr>data = [], entryToEdit = None, isAddEditDialogOpen = False,
      sortConfig = Some \<lparr>key = KDate, direction = Descending\<rparr>\<rparr>)
     = Some \<lparr>key = KWeek, direction = Ascending\<rparr>"
  using handleSort_transitions
    [of KWeek "\<lparr>data = [], entryToEdit = None, isAddEditDialogOpen = False, sortConfig = None\<rparr>"
        KDate Descending]
  by simp

section \<open>Date-range filter\<close>






lemma pickerInUTC_local_day:
  assumes "\<not> (0 \<le> getFullYear h p \<and> getFullYear h p \<le> 99)"
  shows "pickerInUTC h p = TimeClip (Day (LocalTime h p) * msPerDay)"
proof -
  have "MakeFullYear (getFullYear h p) = getFullYear h p"
    using assms by (auto simp: MakeFullYear_def)
  then show ?thesis
    using MakeDay_inverse [of "LocalTime h p"]
    by (simp add: pickerInUTC_def Date_UTC_def getFullYear_def getMonth_def
        getDate_def MakeDate_def MakeTime_def)
qed



section \<open>Field filter\<close>







section \<open>Sort engine\<close>














text \<open>
  Claim C7. Computing the sorted sequence leaves the array \<open>filteredData\<close> as it was,
  element for element, and every other array that existed: the sort runs on a newly
  allocated copy, which holds the result.
\<close>

theorem sortedData_copy:
  assumes "filteredDataRef < length hp"
  shows "case sortedDataMemo h config filteredDataRef hp of
           (sortableItems, hp') \<Rightarrow>
             hp' ! filteredDataRef = hp ! filteredDataRef
             \<and> take (length hp) hp' = hp
             \<and> hp' ! sortableItems = sortedData h config (hp ! filteredDataRef)"
  using assms
  by (auto simp: sortedDataMemo_def spread_def sortInPlace_def sortedData_def nth_append
      split: option.splits)

theorem sortedData_copy_witness:
  "(0::nat) < length [[entryBudi, entryAni, entryCitra]]
   \<and> sortedDataMemo jakarta (Some \<lparr>key = KWeek, direction = Descending\<rparr>) 0
        [[entryBudi, entryAni, entryCitra]]
      = (1, [[entryBudi, entryAni, entryCitra], [entryCitra, entryBudi, entryAni]])
   \<and> snd (sortedDataMemo jakarta (Some \<lparr>key = KWeek, direction = Descending\<rparr>) 0
        [[entryBudi, entryAni, entryCitra]]) ! 0 = [entryBudi, entryAni, entryCitra]"
proof -
  have run: "sortedDataMemo jakarta (Some \<lparr>key = KWeek, direction = Descending\<rparr>) 0
        [[entryBudi, entryAni, entryCitra]]
      = (1, [[entryBudi, entryAni, entryCitra], [entryCitra, entryBudi, entryAni]])"
    by (simp add: sortedDataMemo_def spread_def sortInPlace_def Array_sort_def
        compareEntries_def entryAni_def entryBudi_def entryCitra_def)
  have "(0::nat) < length [[entryBudi, entryAni, entryCitra]]" by simp
  from sortedData_copy [OF this, of jakarta "Some \<lparr>key = KWeek, direction = Descending\<rparr>"]
  have "snd (sortedDataMemo jakarta (Some \<lparr>key = KWeek, direction = Descending\<rparr>) 0
        [[entryBudi, entryAni, entryCitra]]) ! 0 = [[entryBudi, entryAni, entryCitra]] ! 0"
    by (simp add: case_prod_unfold)
  with run show ?thesis by simp
qed

section \<open>Import parser\<close>
















section \<open>CSV export\<close>

lemma exportObject_Inr:
  "newDate h (date e) = Some t \<Longrightarrow>
   exportObject h e = Inr [(''id'', id' e), (''week'', Number_toString (week e)),
               (''date'', format_yyyy_MM_dd h t),
               (''tenantName'', tenantName e), (''businessName'', businessName e),
               (''businessType'', businessType e), (''contact'', contact e),
               (''notes'', notes e), (''status'', status e)]"
  by (simp add: exportObject_def format_def)

lemma cells_of_object:
  "map (\<lambda>f. case rowProp [(''id'', a), (''week'', b), (''date'', c), (''tenantName'', d),
        (''businessName'', e), (''businessType'', f'), (''contact'', g), (''notes'', i),
        (''status'', j)] f of None \<Rightarrow> [] | Some v \<Rightarrow> v) headers
   = [a, b, c, d, e, f', g, i, j]"
  by (simp add: headers_def rowProp_def)

lemma dataToExport_valid:
  "\<forall>e\<in>set items. newDate h (date e) \<noteq> None \<Longrightarrow>
   \<exists>objs. dataToExport h items = Inr objs
     \<and> list_all2 (exportCells h) items (records (Papa_unparse headers objs))"
proof (induction items)
  case Nil
  show ?case by (simp add: Papa_unparse_def)
next
  case (Cons e items)
  then obtain t where t: "newDate h (date e) = Some t" by auto
  from Cons obtain objs where objs: "dataToExport h items = Inr objs"
    "list_all2 (exportCells h) items (records (Papa_unparse headers objs))"
    by auto
  from t have "exportCells h e [id' e, Number_toString (week e), format_yyyy_MM_dd h t,
      tenantName e, businessName e, businessType e, contact e, notes e, status e]"
    by (simp add: exportCells_def)
  with t objs show ?case
    by (simp add: exportObject_Inr Papa_unparse_def cells_of_object)
qed

text \<open>
  Claim C9. When the date of every entry parses and the browser supports the
  \<open>download\<close> attribute, the CSV export produces a file whose header row is
  \<open>id, week, date, tenantName, businessName, businessType, contact, notes, status\<close>,
  followed by one row per entry of the sorted and filtered sequence, in its order, with
  the date in the form \<open>yyyy-MM-dd\<close> and every other field as it is; the file is named
  \<open>leasing_report_\<close>, today's date in the same form, \<open>.csv\<close>.
\<close>

theorem handleDownload_csv:
  assumes "\<forall>e\<in>set items. newDate h (date e) \<noteq> None"
  shows "\<exists>file. handleDownload h True now items = Inr (Some file)
     \<and> header (csv file) = [''id'', ''week'', ''date'', ''tenantName'', ''businessName'',
          ''businessType'', ''contact'', ''notes'', ''status'']
     \<and> list_all2 (exportCells h) items (records (csv file))
     \<and> download file = ''leasing_report_'' @ format_yyyy_MM_dd h now @ ''.csv''"
proof -
  from dataToExport_valid [OF assms] obtain objs where "dataToExport h items = Inr objs"
    "list_all2 (exportCells h) items (records (Papa_unparse headers objs))"
    by blast
  then show ?thesis
    by (simp add: handleDownload_def Papa_unparse_def headers_def)
qed

theorem handleDownload_csv_witness:
  "list_all (\<lambda>e. newDate jakarta (date e) \<noteq> None) [entryCitra, entryBudi]
   \<and> handleDownload jakarta True 1762124400000 [entryCitra, entryBudi]
     = Inr (Some \<lparr>blobType = ''text/csv;charset=utf-t8;'',
          download = ''leasing_report_2025-11-03.csv'',
          csv = \<lparr>header = [''id'', ''week'', ''date'', ''tenantName'', ''businessName'',
                    ''businessType'', ''contact'', ''notes'', ''status''],
                 records =
                   [[''c'', ''30'', ''2025-05-31'', ''Citra'', ''Salon'', ''Service'', ''0813'',
                     [], ''Lost''],
                    [''b'', ''13'', ''2025-06-30'', ''budi'', ''Kopi Budi'', ''F&B'', ''0812'',
                     ''Follow up'', ''Deal'']]\<rparr>\<rparr>)"
proof -
  have valid: "list_all (\<lambda>e. newDate jakarta (date e) \<noteq> None) [entryCitra, entryBudi]"
    by code_simp
  then have "\<forall>e\<in>set [entryCitra, entryBudi]. newDate jakarta (date e) \<noteq> None"
    unfolding list_all_iff .
  from handleDownload_csv [OF this, of 1762124400000]
  obtain dl where dl: "handleDownload jakarta True 1762124400000 [entryCitra, entryBudi]
      = Inr (Some dl)"
    by blast
  have "handleDownload jakarta True 1762124400000 [entryCitra, entryBudi]
     = Inr (Some \<lparr>blobType = ''text/csv;charset=utf-t8;'',
          download = ''leasing_report_2025-11-03.csv'',
          csv = \<lparr>header = [''id'', ''week'', ''date'', ''tenantName'', ''businessName'',
                    ''businessType'', ''contact'', ''notes'', ''status''],
                 records =
                   [[''c'', ''30'', ''2025-05-31'', ''Citra'', ''Salon'', ''Service'', ''0813'',
                     [], ''Lost''],
                    [''b'', ''13'', ''2025-06-30'', ''budi'', ''Kopi Budi'', ''F&B'', ''0812'',
                     ''Follow up'', ''Deal'']]\<rparr>\<rparr>)"
    by code_simp
  with valid dl show ?thesis by simp
qed

section \<open>Export followed by import\<close>





























section \<open>Saving from the edit form\<close>

text \<open>
  Claim C10. Saving while an entry is being edited keeps the length and the order of the
  store: position by position, an item whose id equals the saved entry's id becomes the
  saved entry and every other item stays as it was. Saving while nothing is being edited
  puts the new entry at the front, followed by the old store unchanged.
\<close>

theorem handleSave_frame:
  "(entryToEdit s \<noteq> None \<longrightarrow>
      length (data (handleSave entry s)) = length (data s)
      \<and> (\<forall>i < length (data s).
            data (handleSave entry s) ! i
              = (if id' (data s ! i) = id' entry then entry else data s ! i)))
   \<and> (entryToEdit s = None \<longrightarrow> data (handleSave entry s) = entry # data s)"
  by (auto simp: handleSave_def)

theorem handleSave_frame_witness:
  "data (handleSave (entryBudi\<lparr>week := 14\<rparr>)
      \<lparr>data = [entryAni, entryBudi, entryCitra], entryToEdit = Some entryBudi,
       isAddEditDialogOpen = True, sortConfig = None\<rparr>) ! 1
     = entryBudi\<lparr>week := 14\<rparr>
   \<and> data (handleSave (entryBudi\<lparr>week := 14\<rparr>)
      \<lparr>data = [entryAni, entryBudi, entryCitra], entryToEdit = Some entryBudi,
       isAddEditDialogOpen = True, sortConfig = None\<rparr>) ! 2
     = entryCitra
   \<and> data (handleSave entryCitra
      \<lparr>data = [entryAni, entryBudi], entryToEdit = None,
       isAddEditDialogOpen = True, sortConfig = None\<rparr>)
     = [entryCitra, entryAni, entryBudi]"
  using handleSave_frame
    [of "\<lparr>data = [entryAni, entryBudi, entryCitra], entryToEdit = Some entryBudi,
          isAddEditDialogOpen = True, sortConfig = None\<rparr>"
        "entryBudi\<lparr>week := 14\<rparr>"]
    handleSave_frame
    [of "\<lparr>data = [entryAni, entryBudi], entryToEdit = None,
          isAddEditDialogOpen = True, sortConfig = None\<rparr>" entryCitra]
  by (simp add: entryAni_def entryBudi_def entryCitra_def)

end
